theory Spec2Isabelle
  imports Complex_Main "HOL-Library.Log_Nat"
begin

section \<open>Bank-Root: the transaction controller\<close>

text \<open>
  A shallow embedding of \<^verbatim>\<open>create_transaction\<close> and
  \<^verbatim>\<open>validate_account_owner_by_number\<close> (controllers/transactions.py) over the
  tables of models.py.

  Modelling decisions, all taken from the source:
  \<^item> a \<^verbatim>\<open>Decimal\<close> object is a finite number, an infinity or a NaN; its
    comparisons and its arithmetic can raise, and its arithmetic rounds to the precision
    of the decimal context. A value bound to a DECIMAL(10, 2) column is converted by the
    database, which can refuse it. A row holds what the column stored, a rational number;
  \<^item> a table is the list of its rows; \<^verbatim>\<open>.first()\<close> is \<open>find\<close>, and
    \<^verbatim>\<open>filter_by\<close> compares strings by equality (the collation of the database is not
    modelled);
  \<^item> the session's identity map is keyed by primary key: the pending value of the
    attribute \<^verbatim>\<open>balance\<close> is kept per key, so the source and the target of a
    transfer are one object when they are one row;
  \<^item> what the world outside the handler decides is the environment record: the clock,
    the key the database assigns to the inserted row, whether (and where) the database
    raises an \<^verbatim>\<open>SQLAlchemyError\<close>, the decimal context of the thread, and the
    conversion the database applies to a value bound to a DECIMAL(10, 2) column.
\<close>

subsection \<open>The values of \<^verbatim>\<open>decimal.Decimal\<close>\<close>

datatype decimal = Finite rat | PosInfinity | NegInfinity | QuietNaN | SignalingNaN

text \<open>
  \<^verbatim>\<open>x >= y\<close>: an ordering comparison with a NaN on either side signals
  \<^verbatim>\<open>InvalidOperation\<close>, which the default context traps (\<open>None\<close>: it raises).
  Otherwise the comparison is exact.
\<close>

fun dec_ge :: "decimal \<Rightarrow> decimal \<Rightarrow> bool option" where
  "dec_ge QuietNaN y = None"
| "dec_ge SignalingNaN y = None"
| "dec_ge x QuietNaN = None"
| "dec_ge x SignalingNaN = None"
| "dec_ge PosInfinity y = Some True"
| "dec_ge x NegInfinity = Some True"
| "dec_ge NegInfinity y = Some False"
| "dec_ge x PosInfinity = Some False"
| "dec_ge (Finite a) (Finite b) = Some (a \<ge> b)"

text \<open>
  \<^verbatim>\<open>x == y\<close>, as the flush uses it to find a net change: a quiet NaN is equal to
  nothing. (A signaling NaN never is a pending value: every addition with one raises.)
\<close>

fun dec_eq :: "decimal \<Rightarrow> decimal \<Rightarrow> bool" where
  "dec_eq (Finite a) (Finite b) = (a = b)"
| "dec_eq PosInfinity PosInfinity = True"
| "dec_eq NegInfinity NegInfinity = True"
| "dec_eq x y = False"

fun dec_neg :: "decimal \<Rightarrow> decimal" where
  "dec_neg (Finite a) = Finite (- a)"
| "dec_neg PosInfinity = NegInfinity"
| "dec_neg NegInfinity = PosInfinity"
| "dec_neg QuietNaN = QuietNaN"
| "dec_neg SignalingNaN = SignalingNaN"

text \<open>
  \<^verbatim>\<open>x + y\<close> in a context \<open>ctx\<close>, which gives the rounded value of an exact finite
  result, or \<open>None\<close> when the rounding signals \<^verbatim>\<open>Overflow\<close>. A signaling NaN and the
  sum of opposite infinities signal \<^verbatim>\<open>InvalidOperation\<close>; a quiet NaN propagates.
  \<^verbatim>\<open>x - y\<close> is \<^verbatim>\<open>x + (-y)\<close>.
\<close>

fun dec_add :: "(rat \<Rightarrow> rat option) \<Rightarrow> decimal \<Rightarrow> decimal \<Rightarrow> decimal option" where
  "dec_add ctx SignalingNaN y = None"
| "dec_add ctx x SignalingNaN = None"
| "dec_add ctx QuietNaN y = Some QuietNaN"
| "dec_add ctx x QuietNaN = Some QuietNaN"
| "dec_add ctx PosInfinity NegInfinity = None"
| "dec_add ctx NegInfinity PosInfinity = None"
| "dec_add ctx PosInfinity y = Some PosInfinity"
| "dec_add ctx NegInfinity y = Some NegInfinity"
| "dec_add ctx x PosInfinity = Some PosInfinity"
| "dec_add ctx x NegInfinity = Some NegInfinity"
| "dec_add ctx (Finite a) (Finite b) = map_option Finite (ctx (a + b))"

definition dec_sub :: "(rat \<Rightarrow> rat option) \<Rightarrow> decimal \<Rightarrow> decimal \<Rightarrow> decimal option" where
  "dec_sub ctx x y = dec_add ctx x (dec_neg y)"

text \<open>\<open>x\<close> is a number or an infinity strictly below \<open>y\<close>; nothing is below or above a NaN.\<close>

fun dec_less :: "decimal \<Rightarrow> decimal \<Rightarrow> bool" where
  "dec_less (Finite a) (Finite b) = (a < b)"
| "dec_less (Finite a) PosInfinity = True"
| "dec_less NegInfinity (Finite b) = True"
| "dec_less NegInfinity PosInfinity = True"
| "dec_less x y = False"

definition is_nan :: "decimal \<Rightarrow> bool" where
  "is_nan d = (d = QuietNaN \<or> d = SignalingNaN)"

subsection \<open>models.py\<close>

type_synonym datetime = nat

text \<open>A row of \<^verbatim>\<open>accounts\<close>.\<close>

record account =
  account_id :: nat
  user_id :: nat
  account_type :: string
  account_number :: string
  balance :: rat
  created_at :: datetime
  updated_at :: datetime

text \<open>
  A \<^verbatim>\<open>Transaction\<close>: with a \<^verbatim>\<open>Decimal\<close> amount the object the handler builds,
  with a rational amount a row of \<^verbatim>\<open>transactions\<close>.
\<close>

record 'a transaction =
  txn_id :: nat
  from_account_id :: "nat option"
  to_account_id :: "nat option"
  amount :: 'a
  txn_type :: "string option"
  description :: "string option"
  txn_created_at :: datetime

record database =
  accounts :: "account list"
  transactions :: "rat transaction list"

subsection \<open>The request, the reply and the environment\<close>

text \<open>
  \<open>req_amount\<close> is the outcome of \<^verbatim>\<open>Decimal(data.get('amount'))\<close> (line 130):
  \<open>Unparsable\<close> when the constructor raises (\<^verbatim>\<open>InvalidOperation\<close> for a string that
  is no number, \<^verbatim>\<open>TypeError\<close> for a missing field), \<open>Parsed d\<close> otherwise; the
  constructor accepts the infinities and the NaNs. The other fields are what
  \<^verbatim>\<open>data.get\<close> returns, \<open>None\<close> for an absent key.
\<close>

datatype amount_field = Unparsable | Parsed decimal

record request =
  from_account_number :: "string option"
  to_account_number :: "string option"
  req_amount :: amount_field
  req_type :: "string option"
  req_description :: "string option"

text \<open>
  \<open>Message m c\<close> is \<^verbatim>\<open>jsonify({"message": m}), c\<close>, \<open>Error m c\<close> is
  \<^verbatim>\<open>jsonify({"error": m}), c\<close>, and \<open>Uncaught\<close> is an exception that leaves the
  handler: the one of the parse of the amount, which stands before the \<^verbatim>\<open>try\<close>, and
  the ones of the decimal module inside it, which are no \<^verbatim>\<open>SQLAlchemyError\<close>.
\<close>

datatype response = Message string nat | Error string nat | Uncaught

datatype fault_point = At_owner_query | At_target_query | At_commit

text \<open>
  \<open>getcontext\<close> is the rounding of the thread's decimal context (\<open>None\<close>: it signals
  \<^verbatim>\<open>Overflow\<close>). \<open>store_decimal\<close> is what a DECIMAL(10, 2) column stores for a value
  bound to it (\<open>None\<close>: the database refuses the statement, an
  \<^verbatim>\<open>SQLAlchemyError\<close>).
\<close>

record env =
  utcnow :: datetime
  assigned_id :: nat
  fault :: "fault_point option"
  fault_text :: string
  getcontext :: "rat \<Rightarrow> rat option"
  store_decimal :: "decimal \<Rightarrow> rat option"

subsection \<open>The session\<close>

text \<open>
  A session holds the committed database, the pending value of \<^verbatim>\<open>balance\<close> of
  every loaded account object that was assigned to, by primary key, and the objects
  added but not yet inserted.
\<close>

record session =
  committed :: database
  dirty :: "nat \<rightharpoonup> decimal"
  added :: "decimal transaction list"

definition SessionLocal :: "database \<Rightarrow> session" where
  "SessionLocal db = \<lparr>committed = db, dirty = Map.empty, added = []\<rparr>"

text \<open>
  \<^verbatim>\<open>obj.balance\<close>, for the object loaded from the row \<open>obj\<close>: the pending value,
  or else the loaded one.
\<close>

definition attr_balance :: "session \<Rightarrow> account \<Rightarrow> decimal" where
  "attr_balance s obj =
     (case dirty s (account_id obj) of Some v \<Rightarrow> v | None \<Rightarrow> Finite (balance obj))"

text \<open>
  \<^verbatim>\<open>obj.balance += d\<close> and \<^verbatim>\<open>obj.balance -= d\<close>; \<open>None\<close> when the operation
  raises.
\<close>

definition add_balance :: "env \<Rightarrow> account \<Rightarrow> decimal \<Rightarrow> session \<Rightarrow> session option" where
  "add_balance e obj d s =
     map_option (\<lambda>v. s\<lparr>dirty := (dirty s)(account_id obj \<mapsto> v)\<rparr>)
       (dec_add (getcontext e) (attr_balance s obj) d)"

definition sub_balance :: "env \<Rightarrow> account \<Rightarrow> decimal \<Rightarrow> session \<Rightarrow> session option" where
  "sub_balance e obj d s =
     map_option (\<lambda>v. s\<lparr>dirty := (dirty s)(account_id obj \<mapsto> v)\<rparr>)
       (dec_sub (getcontext e) (attr_balance s obj) d)"

definition session_add :: "decimal transaction \<Rightarrow> session \<Rightarrow> session" where
  "session_add t s = s\<lparr>added := added s @ [t]\<rparr>"

text \<open>
  The flush. An account is updated only when its pending balance is not equal to the
  loaded one; the UPDATE binds the pending value to the column and the column's
  \<^verbatim>\<open>onupdate\<close> sets \<open>updated_at\<close>. The INSERT binds the amount to its column and
  takes the key and the creation time. \<open>None\<close>: the database refuses a value.
\<close>

definition flush_account :: "env \<Rightarrow> session \<Rightarrow> account \<Rightarrow> account option" where
  "flush_account e s row =
     (case dirty s (account_id row) of
        None \<Rightarrow> Some row
      | Some v \<Rightarrow>
          if dec_eq v (Finite (balance row)) then Some row
          else map_option (\<lambda>r. row\<lparr>balance := r, updated_at := utcnow e\<rparr>)
                 (store_decimal e v))"

definition insert_transaction :: "env \<Rightarrow> decimal transaction \<Rightarrow> rat transaction option" where
  "insert_transaction e t =
     map_option
       (\<lambda>r. \<lparr>txn_id = assigned_id e, from_account_id = from_account_id t,
             to_account_id = to_account_id t, amount = r, txn_type = txn_type t,
             description = description t, txn_created_at = utcnow e\<rparr>)
       (store_decimal e (amount t))"

text \<open>The statements of a flush, one per object, in order; the first refusal ends it.\<close>

fun traverse :: "('row \<Rightarrow> 'stored option) \<Rightarrow> 'row list \<Rightarrow> 'stored list option" where
  "traverse f [] = Some []"
| "traverse f (x # xs) =
     (case f x of
        None \<Rightarrow> None
      | Some y \<Rightarrow> (case traverse f xs of None \<Rightarrow> None | Some ys \<Rightarrow> Some (y # ys)))"

text \<open>
  \<^verbatim>\<open>session.commit()\<close>: every statement of the flush, then the commit of the
  database transaction; \<open>None\<close> when a statement is refused, and then nothing is written.
\<close>

definition commit :: "env \<Rightarrow> session \<Rightarrow> database option" where
  "commit e s =
     (case traverse (flush_account e s) (accounts (committed s)) of
        None \<Rightarrow> None
      | Some rows \<Rightarrow>
          (case traverse (insert_transaction e) (added s) of
             None \<Rightarrow> None
           | Some inserted \<Rightarrow>
               Some \<lparr>accounts = rows,
                     transactions = transactions (committed s) @ inserted\<rparr>))"

definition rollback :: "session \<Rightarrow> database" where
  "rollback s = committed s"

text \<open>Closing a session drops whatever was not committed.\<close>

definition close_session :: "session \<Rightarrow> database" where
  "close_session s = committed s"

subsection \<open>controllers/transactions.py\<close>

definition validate_account_owner_by_number ::
    "nat \<Rightarrow> string option \<Rightarrow> session \<Rightarrow> account option" where
  "validate_account_owner_by_number uid number s =
     (case number of
        None \<Rightarrow> None
      | Some n \<Rightarrow> find (\<lambda>a. account_number a = n \<and> user_id a = uid) (accounts (committed s)))"

text \<open>Line 142: the target is looked up only when the number is truthy.\<close>

definition target_queried :: "string option \<Rightarrow> bool" where
  "target_queried number = (case number of None \<Rightarrow> False | Some n \<Rightarrow> n \<noteq> [])"

definition query_to_account :: "string option \<Rightarrow> session \<Rightarrow> account option" where
  "query_to_account number s =
     (case number of
        None \<Rightarrow> None
      | Some n \<Rightarrow> if n = [] then None
                  else find (\<lambda>a. account_number a = n) (accounts (committed s)))"

text \<open>
  Lines 145 to 159: the branch on the kind; \<open>Inl\<close> is an early return, or with
  \<open>Uncaught\<close> an exception of the decimal module. In the condition of line 153 the
  comparison is evaluated first, so it can raise whatever the target is; when it does
  not, the condition fails with one reply whether the funds or the target is what is
  missing.
\<close>

definition process :: "env \<Rightarrow> string option \<Rightarrow> decimal \<Rightarrow> account \<Rightarrow> account option \<Rightarrow>
    session \<Rightarrow> response + session" where
  "process e kind amt from_account to_account s =
     (if kind = Some ''deposit'' then
        (case add_balance e from_account amt s of
           None \<Rightarrow> Inl Uncaught
         | Some s1 \<Rightarrow> Inr s1)
      else if kind = Some ''withdrawal'' then
        (case dec_ge (attr_balance s from_account) amt of
           None \<Rightarrow> Inl Uncaught
         | Some enough \<Rightarrow>
             if enough then
               (case sub_balance e from_account amt s of
                  None \<Rightarrow> Inl Uncaught
                | Some s1 \<Rightarrow> Inr s1)
             else Inl (Error ''Insufficient funds'' 400))
      else if kind = Some ''transfer'' then
        (case dec_ge (attr_balance s from_account) amt of
           None \<Rightarrow> Inl Uncaught
         | Some enough \<Rightarrow>
             (case to_account of
                Some target \<Rightarrow>
                  if enough then
                    (case sub_balance e from_account amt s of
                       None \<Rightarrow> Inl Uncaught
                     | Some s1 \<Rightarrow>
                         (case add_balance e target amt s1 of
                            None \<Rightarrow> Inl Uncaught
                          | Some s2 \<Rightarrow> Inr s2))
                  else Inl (Error ''Insufficient funds or invalid target account'' 400)
              | None \<Rightarrow> Inl (Error ''Insufficient funds or invalid target account'' 400)))
      else Inl (Error ''Invalid transaction type'' 400))"

text \<open>
  Lines 162 to 168: the object built for the ledger. Its key and its creation time are
  set by the insert; until then \<open>0\<close> stands for the unset attribute.
\<close>

definition new_transaction :: "request \<Rightarrow> decimal \<Rightarrow> account \<Rightarrow> account option \<Rightarrow>
    decimal transaction" where
  "new_transaction data amt from_account to_account =
     \<lparr>txn_id = 0,
      from_account_id = Some (account_id from_account),
      to_account_id = map_option account_id to_account,
      amount = amt,
      txn_type = req_type data,
      description = req_description data,
      txn_created_at = 0\<rparr>"

text \<open>
  The handler. The amount is parsed at line 130, before the \<^verbatim>\<open>try\<close>, so its
  exception is not caught. Inside the \<^verbatim>\<open>try\<close>: the guard of lines 137 to 139, the
  lookup of line 142, the branch on the kind, and lines 169 and 170. An
  \<^verbatim>\<open>SQLAlchemyError\<close> of either query, of a statement of the flush or of the commit
  goes to the handler of lines 174 to 176, which rolls back and replies 500 with the text
  of the error. Any other exception leaves the handler. The \<^verbatim>\<open>finally\<close> closes the
  session on every path; after a commit or a rollback that changes nothing in the
  database.
\<close>

definition create_transaction :: "env \<Rightarrow> nat \<Rightarrow> request \<Rightarrow> database \<Rightarrow> response \<times> database" where
  "create_transaction e uid data db =
     (case req_amount data of
        Unparsable \<Rightarrow> (Uncaught, db)
      | Parsed amt \<Rightarrow>
          let s = SessionLocal db in
          if fault e = Some At_owner_query then (Error (fault_text e) 500, rollback s)
          else
            (case validate_account_owner_by_number uid (from_account_number data) s of
               None \<Rightarrow> (Error ''Unauthorized access to the account'' 403, close_session s)
             | Some from_account \<Rightarrow>
                 if fault e = Some At_target_query \<and> target_queried (to_account_number data)
                 then (Error (fault_text e) 500, rollback s)
                 else
                   let to_account = query_to_account (to_account_number data) s in
                   (case process e (req_type data) amt from_account to_account s of
                      Inl reply \<Rightarrow> (reply, close_session s)
                    | Inr s1 \<Rightarrow>
                        let s2 = session_add
                              (new_transaction data amt from_account to_account) s1
                        in if fault e = Some At_commit
                           then (Error (fault_text e) 500, rollback s2)
                           else
                             (case commit e s2 of
                                None \<Rightarrow> (Error (fault_text e) 500, rollback s2)
                              | Some db' \<Rightarrow>
                                  (Message ''Transaction completed successfully'' 201, db')))))"

subsection \<open>What a ledger entry says about a balance\<close>

text \<open>
  The handler records every kind with the caller's account as \<open>from_account_id\<close>. A
  deposit entry therefore credits its \<open>from_account_id\<close>; a transfer entry credits its
  \<open>to_account_id\<close>; a withdrawal and a transfer entry debit their \<open>from_account_id\<close>.
\<close>

definition credit :: "rat transaction \<Rightarrow> nat \<Rightarrow> rat" where
  "credit t i =
     (if (txn_type t = Some ''deposit'' \<and> from_account_id t = Some i) \<or>
         (txn_type t = Some ''transfer'' \<and> to_account_id t = Some i)
      then amount t else 0)"

definition debit :: "rat transaction \<Rightarrow> nat \<Rightarrow> rat" where
  "debit t i =
     (if (txn_type t = Some ''withdrawal'' \<or> txn_type t = Some ''transfer'') \<and>
         from_account_id t = Some i
      then amount t else 0)"

definition credits :: "rat transaction list \<Rightarrow> nat \<Rightarrow> rat" where
  "credits ts i = sum_list (map (\<lambda>t. credit t i) ts)"

definition debits :: "rat transaction list \<Rightarrow> nat \<Rightarrow> rat" where
  "debits ts i = sum_list (map (\<lambda>t. debit t i) ts)"

text \<open>
  The conservation predicate for the provisioned balances \<open>init\<close> (by primary key), and
  the provisioned balances of a database.
\<close>

definition conserved :: "(nat \<Rightarrow> rat) \<Rightarrow> database \<Rightarrow> bool" where
  "conserved init db =
     (\<forall>a \<in> set (accounts db).
        balance a - credits (transactions db) (account_id a)
          + debits (transactions db) (account_id a) = init (account_id a))"

definition provisioned :: "database \<Rightarrow> nat \<Rightarrow> rat" where
  "provisioned db i =
     (case find (\<lambda>a. account_id a = i) (accounts db) of Some a \<Rightarrow> balance a | None \<Rightarrow> 0)"

text \<open>A sequence of requests, each with its caller and its environment, one after another.\<close>

fun run :: "(env \<times> nat \<times> request) list \<Rightarrow> database \<Rightarrow> database" where
  "run [] db = db"
| "run ((e, uid, data) # rest) db = run rest (snd (create_transaction e uid data db))"

text \<open>
  Amounts of whole cents. \<open>fits_column\<close>: what a DECIMAL(10, 2) column can hold.
  \<open>exact_storage\<close>: an environment whose column stores nothing but such values, stores a
  value of whole cents as it is or refuses it, and whose context does not round a value
  of whole cents below \<open>10 ^ 9\<close> (one of eleven digits at most).
\<close>

definition is_cents :: "rat \<Rightarrow> bool" where
  "is_cents x = (of_int \<lfloor>100 * x\<rfloor> = 100 * x)"

definition fits_column :: "rat \<Rightarrow> bool" where
  "fits_column x = (is_cents x \<and> \<bar>x\<bar> < 10 ^ 8)"

definition exact_storage :: "env \<Rightarrow> bool" where
  "exact_storage e =
     ((\<forall>d r. store_decimal e d = Some r \<longrightarrow> fits_column r) \<and>
      (\<forall>x. is_cents x \<longrightarrow>
         store_decimal e (Finite x) = Some x \<or> store_decimal e (Finite x) = None) \<and>
      (\<forall>x. is_cents x \<and> \<bar>x\<bar> < 10 ^ 9 \<longrightarrow> getcontext e x = Some x))"

definition well_stored :: "database \<Rightarrow> bool" where
  "well_stored db =
     (distinct (map account_id (accounts db)) \<and>
      (\<forall>a \<in> set (accounts db). fits_column (balance a)))"

definition cents_request :: "request \<Rightarrow> bool" where
  "cents_request data =
     (case req_amount data of
        Parsed (Finite a) \<Rightarrow> fits_column a
      | _ \<Rightarrow> False)"

text \<open>The row the commit inserts for a request whose amount the column stored as \<open>a\<close>.\<close>

definition entry :: "env \<Rightarrow> request \<Rightarrow> rat \<Rightarrow> account \<Rightarrow> database \<Rightarrow> rat transaction" where
  "entry e data a src db =
     \<lparr>txn_id = assigned_id e,
      from_account_id = Some (account_id src),
      to_account_id = map_option account_id
        (query_to_account (to_account_number data) (SessionLocal db)),
      amount = a,
      txn_type = req_type data,
      description = req_description data,
      txn_created_at = utcnow e\<rparr>"

subsection \<open>The default context and the column type\<close>

text \<open>
  Python's default context: 28 significant digits, rounding half to even, exponents from
  \<open>- 999999\<close> to \<open>999999\<close>, \<^verbatim>\<open>Overflow\<close> trapped. \<open>adjusted r\<close> is the exponent of
  the leading digit of \<open>r \<noteq> 0\<close>.
\<close>

definition adjusted :: "rat \<Rightarrow> int" where
  "adjusted r =
     (if \<bar>r\<bar> \<ge> 1 then int (floorlog 10 (nat \<lfloor>\<bar>r\<bar>\<rfloor>)) - 1
      else - int (floorlog 10 (nat (\<lceil>1 / \<bar>r\<bar>\<rceil> - 1))))"

definition scale10 :: "rat \<Rightarrow> int \<Rightarrow> rat" where
  "scale10 x n = (if 0 \<le> n then x * 10 ^ nat n else x / 10 ^ nat (- n))"

definition round_half_even :: "rat \<Rightarrow> int" where
  "round_half_even x =
     (let f = \<lfloor>x\<rfloor>; d = x - of_int f
      in if d < 1 / 2 then f else if 1 / 2 < d then f + 1
         else if even f then f else f + 1)"

definition default_context :: "rat \<Rightarrow> rat option" where
  "default_context r =
     (if r = 0 then Some 0
      else
        let q = max (adjusted r - 27) (- 1000026);
            v = sgn r * scale10 (of_int (round_half_even (scale10 \<bar>r\<bar> (- q)))) q
        in if v \<noteq> 0 \<and> 999999 < adjusted v then None else Some v)"

text \<open>
  A DECIMAL(10, 2) column of a server in strict mode: a number is rounded to two places,
  half away from zero, and refused when out of range; what is no number is refused.
\<close>

definition round_half_away :: "rat \<Rightarrow> int" where
  "round_half_away y = (if 0 \<le> y then \<lfloor>y + 1 / 2\<rfloor> else - \<lfloor>- y + 1 / 2\<rfloor>)"

definition decimal_10_2 :: "decimal \<Rightarrow> rat option" where
  "decimal_10_2 d =
     (case d of
        Finite x \<Rightarrow>
          let r = of_int (round_half_away (100 * x)) / 100
          in if \<bar>r\<bar> < 10 ^ 8 then Some r else None
      | _ \<Rightarrow> None)"

subsection \<open>Sample data\<close>

definition alice_current :: account where
  "alice_current = \<lparr>account_id = 1, user_id = 1, account_type = ''current'',
     account_number = ''A1'', balance = 100, created_at = 0, updated_at = 0\<rparr>"

definition bob_savings :: account where
  "bob_savings = \<lparr>account_id = 2, user_id = 2, account_type = ''savings'',
     account_number = ''B2'', balance = 50, created_at = 0, updated_at = 0\<rparr>"

definition two_accounts :: database where
  "two_accounts = \<lparr>accounts = [alice_current, bob_savings], transactions = []\<rparr>"

definition calm :: env where
  "calm = \<lparr>utcnow = 7, assigned_id = 1, fault = None, fault_text = [],
     getcontext = default_context, store_decimal = decimal_10_2\<rparr>"

definition commit_down :: env where
  "commit_down =
     \<lparr>utcnow = 7, assigned_id = 1, fault = Some At_commit, fault_text = ''gone away'',
      getcontext = default_context, store_decimal = decimal_10_2\<rparr>"

definition order :: "string \<Rightarrow> string \<Rightarrow> string option \<Rightarrow> amount_field \<Rightarrow> request" where
  "order kind src tgt amt = \<lparr>from_account_number = Some src, to_account_number = tgt,
     req_amount = amt, req_type = Some kind, req_description = Some []\<rparr>"

definition busy_day :: "(env \<times> nat \<times> request) list" where
  "busy_day =
     [(calm, 1, order ''deposit'' ''A1'' None (Parsed (Finite 25))),
      (calm, 1, order ''transfer'' ''A1'' (Some ''B2'') (Parsed (Finite 40))),
      (commit_down, 2, order ''withdrawal'' ''B2'' None (Parsed (Finite 5))),
      (calm, 2, order ''withdrawal'' ''B2'' None (Parsed (Finite 500))),
      (calm, 2, order ''withdrawal'' ''B2'' (Some ''A1'') (Parsed (Finite 15)))]"

section \<open>Properties\<close>

subsection \<open>The session and the flush\<close>

lemma traverse_Some:
  "traverse f xs = Some ys \<Longrightarrow> list_all2 (\<lambda>x y. f x = Some y) xs ys"
  by (induction xs arbitrary: ys) (auto split: option.splits)

lemma traverse_id: "(\<And>x. x \<in> set xs \<Longrightarrow> f x = Some x) \<Longrightarrow> traverse f xs = Some xs"
  by (induction xs) simp_all

lemma flush_account_cases:
  assumes "flush_account e s row = Some row'"
  shows "row' = row \<or>
         (\<exists>v r. dirty s (account_id row) = Some v \<and> \<not> dec_eq v (Finite (balance row)) \<and>
                store_decimal e v = Some r \<and>
                row' = row\<lparr>balance := r, updated_at := utcnow e\<rparr>)"
  using assms by (auto simp: flush_account_def split: option.splits if_splits)

lemma flush_account_clean:
  "dirty s (account_id row) = None \<Longrightarrow> flush_account e s row = Some row"
  by (simp add: flush_account_def)

lemma flush_account_fields:
  assumes "flush_account e s row = Some row'"
  shows "account_id row' = account_id row \<and> user_id row' = user_id row \<and>
         account_type row' = account_type row \<and> account_number row' = account_number row \<and>
         created_at row' = created_at row"
  using flush_account_cases [OF assms] by auto

lemma committed_SessionLocal: "committed (SessionLocal db) = db"
  by (simp add: SessionLocal_def)

lemma dirty_SessionLocal: "dirty (SessionLocal db) = Map.empty"
  by (simp add: SessionLocal_def)

lemma added_SessionLocal: "added (SessionLocal db) = []"
  by (simp add: SessionLocal_def)

lemma attr_balance_SessionLocal: "attr_balance (SessionLocal db) obj = Finite (balance obj)"
  by (simp add: attr_balance_def SessionLocal_def)

lemma add_balance_Some:
  assumes "add_balance e obj d s = Some s1"
  shows "\<exists>v. dec_add (getcontext e) (attr_balance s obj) d = Some v \<and>
             s1 = s\<lparr>dirty := (dirty s)(account_id obj \<mapsto> v)\<rparr>"
  using assms by (auto simp: add_balance_def)

lemma sub_balance_Some:
  assumes "sub_balance e obj d s = Some s1"
  shows "\<exists>v. dec_sub (getcontext e) (attr_balance s obj) d = Some v \<and>
             s1 = s\<lparr>dirty := (dirty s)(account_id obj \<mapsto> v)\<rparr>"
  using assms by (auto simp: sub_balance_def)

lemma committed_session_add: "committed (session_add t s) = committed s"
  by (simp add: session_add_def)

lemma dirty_session_add: "dirty (session_add t s) = dirty s"
  by (simp add: session_add_def)

lemma added_session_add: "added (session_add t s) = added s @ [t]"
  by (simp add: session_add_def)

lemma flush_account_session_add:
  "flush_account e (session_add t s) = flush_account e s"
  by (rule ext) (simp add: flush_account_def session_add_def)

subsection \<open>The comparisons\<close>

lemma dec_less_not_ge: "dec_less x y \<Longrightarrow> dec_ge x y = Some False"
  by (cases x; cases y) simp_all

lemma dec_ge_nan: "is_nan y \<Longrightarrow> dec_ge x y = None"
  by (cases x; cases y) (simp_all add: is_nan_def)

lemma dec_ge_not_nan: "\<not> is_nan y \<Longrightarrow> \<exists>b. dec_ge (Finite a) y = Some b"
  by (cases y) (auto simp: is_nan_def)

subsection \<open>The branch on the kind\<close>

text \<open>
  What a processed session holds: one of three shapes.
\<close>

lemma process_Inr:
  assumes "process e kind amt src tgt s = Inr s1"
  shows "(kind = Some ''deposit'' \<and>
            (\<exists>v. dec_add (getcontext e) (attr_balance s src) amt = Some v \<and>
                 s1 = s\<lparr>dirty := (dirty s)(account_id src \<mapsto> v)\<rparr>)) \<or>
         (kind = Some ''withdrawal'' \<and> dec_ge (attr_balance s src) amt = Some True \<and>
            (\<exists>v. dec_sub (getcontext e) (attr_balance s src) amt = Some v \<and>
                 s1 = s\<lparr>dirty := (dirty s)(account_id src \<mapsto> v)\<rparr>)) \<or>
         (kind = Some ''transfer'' \<and> dec_ge (attr_balance s src) amt = Some True \<and>
            (\<exists>t v w. tgt = Some t \<and>
               dec_sub (getcontext e) (attr_balance s src) amt = Some v \<and>
               dec_add (getcontext e)
                 (attr_balance (s\<lparr>dirty := (dirty s)(account_id src \<mapsto> v)\<rparr>) t) amt = Some w \<and>
               s1 = s\<lparr>dirty := (dirty s)(account_id src \<mapsto> v, account_id t \<mapsto> w)\<rparr>))"
  using assms
  by (auto simp: process_def split: if_splits option.splits
      dest!: add_balance_Some sub_balance_Some)

lemma process_committed: "process e kind amt src tgt s = Inr s1 \<Longrightarrow> committed s1 = committed s"
  by (drule process_Inr) auto

lemma process_added: "process e kind amt src tgt s = Inr s1 \<Longrightarrow> added s1 = added s"
  by (drule process_Inr) auto

lemma process_dirty_dom:
  assumes "process e kind amt src tgt s = Inr s1" and "dirty s = Map.empty"
  shows "dom (dirty s1) \<subseteq> {account_id src} \<union>
           (if kind = Some ''transfer'' then account_id ` set_option tgt else {})"
  using process_Inr [OF assms(1)] assms(2) by (auto split: if_splits)

lemma process_Inl:
  "process e kind amt src tgt s = Inl r \<Longrightarrow> (\<exists>m. r = Error m 400) \<or> r = Uncaught"
  by (auto simp: process_def split: if_splits option.splits)

subsection \<open>The lookups\<close>

lemma find_None_all: "find P xs = None \<longleftrightarrow> (\<forall>x\<in>set xs. \<not> P x)"
  by (induction xs) auto

lemma find_Some_in: "find P xs = Some x \<Longrightarrow> x \<in> set xs \<and> P x"
  by (induction xs) (auto split: if_splits)

lemma validate_in_accounts:
  "validate_account_owner_by_number uid number (SessionLocal db) = Some src \<Longrightarrow>
   src \<in> set (accounts db)"
  by (auto simp: validate_account_owner_by_number_def committed_SessionLocal
      split: option.splits dest: find_Some_in)

lemma query_in_accounts:
  "query_to_account number (SessionLocal db) = Some tgt \<Longrightarrow> tgt \<in> set (accounts db)"
  by (auto simp: query_to_account_def committed_SessionLocal
      split: option.splits if_splits dest: find_Some_in)

lemma same_key_same_row:
  "distinct (map account_id xs) \<Longrightarrow> a \<in> set xs \<Longrightarrow> b \<in> set xs \<Longrightarrow>
   account_id a = account_id b \<Longrightarrow> a = b"
  by (auto simp: distinct_map dest: inj_onD)

subsection \<open>The two outcomes of a request\<close>

lemma create_transaction_result:
  assumes "create_transaction e uid data db = (reply, db')"
  shows "(reply \<noteq> Message ''Transaction completed successfully'' 201 \<and> db' = db) \<or>
     (\<exists>amt src s1. req_amount data = Parsed amt \<and>
        validate_account_owner_by_number uid (from_account_number data) (SessionLocal db)
          = Some src \<and>
        process e (req_type data) amt src
          (query_to_account (to_account_number data) (SessionLocal db)) (SessionLocal db)
          = Inr s1 \<and>
        fault e \<noteq> Some At_commit \<and>
        reply = Message ''Transaction completed successfully'' 201 \<and>
        commit e (session_add (new_transaction data amt src
                 (query_to_account (to_account_number data) (SessionLocal db))) s1) = Some db')"
  using assms
  by (auto simp: create_transaction_def Let_def rollback_def close_session_def
      committed_session_add process_committed committed_SessionLocal
      dest: process_Inl
      split: amount_field.splits if_splits option.splits sum.splits)

lemma create_transaction_committed:
  assumes "create_transaction e uid data db =
             (Message ''Transaction completed successfully'' 201, db')"
  shows "\<exists>amt src s1 a. req_amount data = Parsed amt \<and>
           validate_account_owner_by_number uid (from_account_number data) (SessionLocal db)
             = Some src \<and>
           process e (req_type data) amt src
             (query_to_account (to_account_number data) (SessionLocal db)) (SessionLocal db)
             = Inr s1 \<and>
           fault e \<noteq> Some At_commit \<and>
           store_decimal e amt = Some a \<and>
           transactions db' = transactions db @ [entry e data a src db] \<and>
           list_all2 (\<lambda>row row'. flush_account e s1 row = Some row') (accounts db) (accounts db')"
proof -
  let ?tgt = "query_to_account (to_account_number data) (SessionLocal db)"
  from create_transaction_result [OF assms] obtain amt src s1 where
    a: "req_amount data = Parsed amt"
    and v: "validate_account_owner_by_number uid (from_account_number data) (SessionLocal db)
             = Some src"
    and p: "process e (req_type data) amt src ?tgt (SessionLocal db) = Inr s1"
    and f: "fault e \<noteq> Some At_commit"
    and c: "commit e (session_add (new_transaction data amt src ?tgt) s1) = Some db'"
    by auto
  have cs: "committed s1 = db"
    using process_committed [OF p] by (simp add: committed_SessionLocal)
  have ad: "added s1 = []"
    using process_added [OF p] by (simp add: added_SessionLocal)
  from c obtain rows inserted where
    r: "traverse (flush_account e s1) (accounts db) = Some rows"
    and i: "traverse (insert_transaction e) [new_transaction data amt src ?tgt] = Some inserted"
    and d: "db' = \<lparr>accounts = rows, transactions = transactions db @ inserted\<rparr>"
    by (auto simp: commit_def committed_session_add flush_account_session_add
        added_session_add cs ad split: option.splits)
  from i obtain a where s: "store_decimal e amt = Some a"
    and ins: "inserted = [entry e data a src db]"
    by (auto simp: insert_transaction_def new_transaction_def entry_def split: option.splits)
  from traverse_Some [OF r] d
  have "list_all2 (\<lambda>row row'. flush_account e s1 row = Some row') (accounts db) (accounts db')"
    by simp
  with a v p f s ins d show ?thesis by auto
qed

subsection \<open>Atomicity\<close>



subsection \<open>Rejections\<close>

text \<open>
  Claim C6. When no account with the given source number belongs to the caller (the
  number names nobody's account, or somebody else's, or is absent), a request whose amount
  parsed leaves the database as it was, for every kind and whatever the balances and the
  amount; and unless the lookup itself raised, the reply is the 403
  \<^verbatim>\<open>Unauthorized access to the account\<close>, the same for an account that does not exist
  and for one that is not the caller's.
\<close>

theorem foreign_source_unauthorized:
  assumes "req_amount data = Parsed amt"
    and "\<forall>a \<in> set (accounts db).
           from_account_number data = Some (account_number a) \<longrightarrow> user_id a \<noteq> uid"
  shows "snd (create_transaction e uid data db) = db \<and>
         (fault e \<noteq> Some At_owner_query \<longrightarrow>
            fst (create_transaction e uid data db)
              = Error ''Unauthorized access to the account'' 403)"
proof -
  have "validate_account_owner_by_number uid (from_account_number data) (SessionLocal db) = None"
    using assms(2)
    by (auto simp: validate_account_owner_by_number_def committed_SessionLocal find_None_all
        split: option.splits)
  with assms(1) show ?thesis
    by (simp add: create_transaction_def Let_def rollback_def close_session_def
        committed_SessionLocal)
qed

text \<open>
  User 1 withdraws from user 2's account, and deposits to an account nobody has.
\<close>

theorem foreign_source_unauthorized_witness:
  "account_number bob_savings = ''B2'' \<and> user_id bob_savings \<noteq> 1 \<and>
   ''ZZ'' \<notin> set (map account_number (accounts two_accounts)) \<and>
   create_transaction calm 1 (order ''withdrawal'' ''B2'' None (Parsed (Finite 10))) two_accounts
     = (Error ''Unauthorized access to the account'' 403, two_accounts) \<and>
   create_transaction calm 1 (order ''deposit'' ''ZZ'' None (Parsed (Finite 10))) two_accounts
     = (Error ''Unauthorized access to the account'' 403, two_accounts)"
proof -
  let ?w = "order ''withdrawal'' ''B2'' None (Parsed (Finite 10))"
  let ?d = "order ''deposit'' ''ZZ'' None (Parsed (Finite 10))"
  have a: "req_amount ?w = Parsed (Finite 10)" and b: "req_amount ?d = Parsed (Finite 10)"
    by (simp_all add: order_def)
  have c: "\<forall>a \<in> set (accounts two_accounts).
      from_account_number ?w = Some (account_number a) \<longrightarrow> user_id a \<noteq> 1"
    and d: "\<forall>a \<in> set (accounts two_accounts).
      from_account_number ?d = Some (account_number a) \<longrightarrow> user_id a \<noteq> 1"
    by code_simp+
  have f: "fault calm \<noteq> Some At_owner_query" by (simp add: calm_def)
  have g: "account_number bob_savings = ''B2'' \<and> user_id bob_savings \<noteq> 1 \<and>
      ''ZZ'' \<notin> set (map account_number (accounts two_accounts))"
    by code_simp
  from foreign_source_unauthorized [OF a c, of calm] foreign_source_unauthorized [OF b d, of calm]
    f g
  show ?thesis by (simp add: prod_eq_iff)
qed

text \<open>
  Claim C3. A withdrawal of more than the balance of the caller's source account (a
  greater number, or the positive infinity) leaves the database as it was: the balance
  keeps its value and no ledger entry is written. When both lookups answered, the reply
  is the 400 \<^verbatim>\<open>Insufficient funds\<close>.
\<close>

theorem withdrawal_insufficient_funds:
  assumes "req_amount data = Parsed amt"
    and "req_type data = Some ''withdrawal''"
    and "validate_account_owner_by_number uid (from_account_number data) (SessionLocal db)
           = Some src"
    and "dec_less (Finite (balance src)) amt"
  shows "snd (create_transaction e uid data db) = db \<and>
         (fault e \<noteq> Some At_owner_query \<and> fault e \<noteq> Some At_target_query \<longrightarrow>
            fst (create_transaction e uid data db) = Error ''Insufficient funds'' 400)"
  using assms dec_less_not_ge [OF assms(4)]
  by (simp add: create_transaction_def Let_def rollback_def close_session_def
      committed_SessionLocal process_def attr_balance_SessionLocal)

text \<open>
  A withdrawal of 250 from a balance of 100.
\<close>

theorem withdrawal_insufficient_funds_witness:
  "validate_account_owner_by_number 1
     (from_account_number (order ''withdrawal'' ''A1'' None (Parsed (Finite 250))))
     (SessionLocal two_accounts) = Some alice_current \<and>
   dec_less (Finite (balance alice_current)) (Finite 250) \<and>
   create_transaction calm 1 (order ''withdrawal'' ''A1'' None (Parsed (Finite 250))) two_accounts
     = (Error ''Insufficient funds'' 400, two_accounts)"
proof -
  let ?d = "order ''withdrawal'' ''A1'' None (Parsed (Finite 250))"
  have a: "req_amount ?d = Parsed (Finite 250)"
    and b: "req_type ?d = Some ''withdrawal''"
    by (simp_all add: order_def)
  have c: "validate_account_owner_by_number 1 (from_account_number ?d)
     (SessionLocal two_accounts) = Some alice_current"
    by code_simp
  have d: "dec_less (Finite (balance alice_current)) (Finite 250)"
    by code_simp
  have f: "fault calm \<noteq> Some At_owner_query \<and> fault calm \<noteq> Some At_target_query"
    by (simp add: calm_def)
  from withdrawal_insufficient_funds [OF a b c d, of calm] c d f
  show ?thesis by (simp add: prod_eq_iff)
qed

text \<open>
  Claim C2, as the code has it. There is no check of the sign of the amount: a deposit of
  \<open>- 30\<close> is committed and takes 30 from the balance, a withdrawal of \<open>0\<close> is committed
  and writes its entry, and a transfer of \<open>- 10\<close> moves 10 from the target to the source.
\<close>

theorem nonpositive_amount_accepted:
  "create_transaction calm 1 (order ''deposit'' ''A1'' None (Parsed (Finite (- 30)))) two_accounts
     = (Message ''Transaction completed successfully'' 201,
        \<lparr>accounts = [alice_current\<lparr>balance := 70, updated_at := 7\<rparr>, bob_savings],
         transactions = [\<lparr>txn_id = 1, from_account_id = Some 1, to_account_id = None,
            amount = - 30, txn_type = Some ''deposit'', description = Some [],
            txn_created_at = 7\<rparr>]\<rparr>) \<and>
   create_transaction calm 1 (order ''withdrawal'' ''A1'' None (Parsed (Finite 0))) two_accounts
     = (Message ''Transaction completed successfully'' 201,
        \<lparr>accounts = [alice_current, bob_savings],
         transactions = [\<lparr>txn_id = 1, from_account_id = Some 1, to_account_id = None,
            amount = 0, txn_type = Some ''withdrawal'', description = Some [],
            txn_created_at = 7\<rparr>]\<rparr>) \<and>
   create_transaction calm 1 (order ''transfer'' ''A1'' (Some ''B2'') (Parsed (Finite (- 10))))
       two_accounts
     = (Message ''Transaction completed successfully'' 201,
        \<lparr>accounts = [alice_current\<lparr>balance := 110, updated_at := 7\<rparr>,
                     bob_savings\<lparr>balance := 40, updated_at := 7\<rparr>],
         transactions = [\<lparr>txn_id = 1, from_account_id = Some 1, to_account_id = Some 2,
            amount = - 10, txn_type = Some ''transfer'', description = Some [],
            txn_created_at = 7\<rparr>]\<rparr>)"
  by code_simp

text \<open>
  Claim C2, amended. An amount that does not parse makes the constructor raise before the
  session is opened: the exception leaves the handler, whatever the kind, and the database
  is as it was. An amount that is a NaN parses, and makes the comparison of a withdrawal
  or of a transfer from the caller's account raise: that exception leaves the handler
  too, and the database is as it was.
\<close>

theorem invalid_amount_raises:
  "(req_amount data = Unparsable \<longrightarrow> create_transaction e uid data db = (Uncaught, db)) \<and>
   (\<forall>amt src. req_amount data = Parsed amt \<and> is_nan amt \<and>
       (req_type data = Some ''withdrawal'' \<or> req_type data = Some ''transfer'') \<and>
       validate_account_owner_by_number uid (from_account_number data) (SessionLocal db)
         = Some src \<and>
       fault e \<noteq> Some At_owner_query \<and> fault e \<noteq> Some At_target_query \<longrightarrow>
       create_transaction e uid data db = (Uncaught, db))"
proof (intro conjI allI impI)
  assume "req_amount data = Unparsable"
  then show "create_transaction e uid data db = (Uncaught, db)"
    by (simp add: create_transaction_def)
next
  fix amt src
  assume a: "req_amount data = Parsed amt \<and> is_nan amt \<and>
       (req_type data = Some ''withdrawal'' \<or> req_type data = Some ''transfer'') \<and>
       validate_account_owner_by_number uid (from_account_number data) (SessionLocal db)
         = Some src \<and>
       fault e \<noteq> Some At_owner_query \<and> fault e \<noteq> Some At_target_query"
  then have "dec_ge (Finite (balance src)) amt = None"
    by (simp add: dec_ge_nan)
  with a show "create_transaction e uid data db = (Uncaught, db)"
    by (auto simp: create_transaction_def Let_def rollback_def close_session_def
        committed_SessionLocal process_def attr_balance_SessionLocal)
qed

text \<open>
  A transfer with an amount that does not parse, and a withdrawal of a NaN.
\<close>

theorem invalid_amount_raises_witness:
  "req_amount (order ''transfer'' ''A1'' (Some ''B2'') Unparsable) = Unparsable \<and>
   create_transaction calm 1 (order ''transfer'' ''A1'' (Some ''B2'') Unparsable) two_accounts
     = (Uncaught, two_accounts) \<and>
   is_nan QuietNaN \<and>
   validate_account_owner_by_number 1 (Some ''A1'') (SessionLocal two_accounts)
     = Some alice_current \<and>
   create_transaction calm 1 (order ''withdrawal'' ''A1'' None (Parsed QuietNaN)) two_accounts
     = (Uncaught, two_accounts)"
proof -
  let ?u = "order ''transfer'' ''A1'' (Some ''B2'') Unparsable"
  let ?n = "order ''withdrawal'' ''A1'' None (Parsed QuietNaN)"
  have a: "req_amount ?u = Unparsable" by (simp add: order_def)
  have b: "req_amount ?n = Parsed QuietNaN \<and> is_nan QuietNaN \<and>
       (req_type ?n = Some ''withdrawal'' \<or> req_type ?n = Some ''transfer'') \<and>
       validate_account_owner_by_number 1 (from_account_number ?n) (SessionLocal two_accounts)
         = Some alice_current \<and>
       fault calm \<noteq> Some At_owner_query \<and> fault calm \<noteq> Some At_target_query"
    by code_simp
  have c: "validate_account_owner_by_number 1 (Some ''A1'') (SessionLocal two_accounts)
     = Some alice_current"
    by code_simp
  from invalid_amount_raises [of ?u calm 1 two_accounts, THEN conjunct1] a
  have 1: "create_transaction calm 1 ?u two_accounts = (Uncaught, two_accounts)" by simp
  from invalid_amount_raises [of ?n calm 1 two_accounts, THEN conjunct2] b
  have 2: "create_transaction calm 1 ?n two_accounts = (Uncaught, two_accounts)" by blast
  from a b c 1 2 show ?thesis by simp
qed

text \<open>
  Claim C4, as the code has it. A transfer to a number no account has gets the same reply
  as a transfer of more than the balance to an account that exists: one 400 with one
  message for both, and no reply of its own for the missing target.
\<close>

theorem unresolved_target_reply_not_distinct:
  "query_to_account (Some ''ZZ'') (SessionLocal two_accounts) = None \<and>
   create_transaction calm 1 (order ''transfer'' ''A1'' (Some ''ZZ'') (Parsed (Finite 10)))
       two_accounts
     = (Error ''Insufficient funds or invalid target account'' 400, two_accounts) \<and>
   query_to_account (Some ''B2'') (SessionLocal two_accounts) = Some bob_savings \<and>
   create_transaction calm 1 (order ''transfer'' ''A1'' (Some ''B2'') (Parsed (Finite 1000)))
       two_accounts
     = (Error ''Insufficient funds or invalid target account'' 400, two_accounts)"
  by code_simp

text \<open>
  Claim C4, amended. A transfer from the caller's account whose target number resolves to
  no account (or whose amount exceeds the source balance) leaves the database as it was.
  When both lookups answered and the amount is no NaN, the reply is the 400
  \<^verbatim>\<open>Insufficient funds or invalid target account\<close>, shared by the two causes; when the
  amount is a NaN the comparison, which comes first, raises.
\<close>

theorem transfer_unresolved_target:
  assumes "req_amount data = Parsed amt"
    and "req_type data = Some ''transfer''"
    and "validate_account_owner_by_number uid (from_account_number data) (SessionLocal db)
           = Some src"
    and "query_to_account (to_account_number data) (SessionLocal db) = None \<or>
         dec_less (Finite (balance src)) amt"
  shows "snd (create_transaction e uid data db) = db \<and>
         (fault e \<noteq> Some At_owner_query \<and> fault e \<noteq> Some At_target_query \<longrightarrow>
            fst (create_transaction e uid data db)
              = (if is_nan amt then Uncaught
                 else Error ''Insufficient funds or invalid target account'' 400))"
proof (cases "is_nan amt")
  case True
  then have "\<not> dec_less (Finite (balance src)) amt"
    by (cases amt) (simp_all add: is_nan_def)
  with assms True dec_ge_nan [OF True, of "Finite (balance src)"] show ?thesis
    by (simp add: create_transaction_def Let_def rollback_def close_session_def
        committed_SessionLocal process_def attr_balance_SessionLocal)
next
  case False
  from dec_ge_not_nan [OF False] obtain b where
    b: "dec_ge (Finite (balance src)) amt = Some b" by blast
  from assms(4) b have "query_to_account (to_account_number data) (SessionLocal db) = None \<or> \<not> b"
    by (auto dest: dec_less_not_ge)
  with assms(1-3) False b show ?thesis
    by (auto simp: create_transaction_def Let_def rollback_def close_session_def
        committed_SessionLocal process_def attr_balance_SessionLocal split: option.splits)
qed

text \<open>
  A transfer of 10, and one of a NaN, to the number \<^verbatim>\<open>ZZ\<close>, which no account has.
\<close>

theorem transfer_unresolved_target_witness:
  "validate_account_owner_by_number 1
     (from_account_number (order ''transfer'' ''A1'' (Some ''ZZ'') (Parsed (Finite 10))))
     (SessionLocal two_accounts) = Some alice_current \<and>
   query_to_account
     (to_account_number (order ''transfer'' ''A1'' (Some ''ZZ'') (Parsed (Finite 10))))
     (SessionLocal two_accounts) = None \<and>
   create_transaction calm 1 (order ''transfer'' ''A1'' (Some ''ZZ'') (Parsed (Finite 10)))
       two_accounts
     = (Error ''Insufficient funds or invalid target account'' 400, two_accounts) \<and>
   create_transaction calm 1 (order ''transfer'' ''A1'' (Some ''ZZ'') (Parsed QuietNaN))
       two_accounts
     = (Uncaught, two_accounts)"
proof -
  let ?d = "order ''transfer'' ''A1'' (Some ''ZZ'') (Parsed (Finite 10))"
  let ?n = "order ''transfer'' ''A1'' (Some ''ZZ'') (Parsed QuietNaN)"
  have a: "req_amount ?d = Parsed (Finite 10)" and b: "req_type ?d = Some ''transfer''"
    and a': "req_amount ?n = Parsed QuietNaN" and b': "req_type ?n = Some ''transfer''"
    by (simp_all add: order_def)
  have c: "validate_account_owner_by_number 1 (from_account_number ?d)
     (SessionLocal two_accounts) = Some alice_current"
    and c': "validate_account_owner_by_number 1 (from_account_number ?n)
     (SessionLocal two_accounts) = Some alice_current"
    by code_simp+
  have d: "query_to_account (to_account_number ?d) (SessionLocal two_accounts) = None"
    and d': "query_to_account (to_account_number ?n) (SessionLocal two_accounts) = None"
    by code_simp+
  have f: "fault calm \<noteq> Some At_owner_query \<and> fault calm \<noteq> Some At_target_query"
    by (simp add: calm_def)
  have n: "\<not> is_nan (Finite 10) \<and> is_nan QuietNaN" by (simp add: is_nan_def)
  from transfer_unresolved_target [OF a b c disjI1 [OF d], of calm]
       transfer_unresolved_target [OF a' b' c' disjI1 [OF d'], of calm] c d f n
  show ?thesis by (simp add: prod_eq_iff)
qed

subsection \<open>Transfers to the source itself\<close>

text \<open>
  Claim C5, as the code has it. A transfer of 10 from an account to itself is not
  rejected: the reply is the 201, and a ledger entry with that account on both sides is
  written.
\<close>

theorem self_transfer_committed:
  "query_to_account (Some ''A1'') (SessionLocal two_accounts) = Some alice_current \<and>
   validate_account_owner_by_number 1 (Some ''A1'') (SessionLocal two_accounts)
     = Some alice_current \<and>
   create_transaction calm 1 (order ''transfer'' ''A1'' (Some ''A1'') (Parsed (Finite 10)))
       two_accounts
     = (Message ''Transaction completed successfully'' 201,
        \<lparr>accounts = [alice_current, bob_savings],
         transactions = [\<lparr>txn_id = 1, from_account_id = Some 1, to_account_id = Some 1,
            amount = 10, txn_type = Some ''transfer'', description = Some [],
            txn_created_at = 7\<rparr>]\<rparr>)"
  by code_simp

text \<open>
  Claim C5, amended. A transfer whose target is the source row itself is not rejected
  for that. If the amount exceeds the balance the database is as it was. If the balance
  is enough, the subtraction and the addition of the amount cancel in the context (the
  pending balance is equal to the loaded one again), the column takes the amount and the
  storage raises nowhere, then the request is committed with the 201, no account row
  changes, and the only change is one new ledger entry whose source and target are both
  that account.
\<close>

theorem self_transfer_not_rejected:
  assumes "req_amount data = Parsed amt"
    and "req_type data = Some ''transfer''"
    and "validate_account_owner_by_number uid (from_account_number data) (SessionLocal db)
           = Some src"
    and "query_to_account (to_account_number data) (SessionLocal db) = Some tgt"
    and "account_id tgt = account_id src"
    and "distinct (map account_id (accounts db))"
  shows "(dec_less (Finite (balance src)) amt \<longrightarrow>
            snd (create_transaction e uid data db) = db) \<and>
         (\<forall>v a. dec_ge (Finite (balance src)) amt = Some True \<and>
            dec_sub (getcontext e) (Finite (balance src)) amt = Some v \<and>
            dec_add (getcontext e) v amt = Some (Finite (balance src)) \<and>
            store_decimal e amt = Some a \<and> fault e = None \<longrightarrow>
            create_transaction e uid data db =
              (Message ''Transaction completed successfully'' 201,
               db\<lparr>transactions := transactions db @
                     [\<lparr>txn_id = assigned_id e, from_account_id = Some (account_id src),
                       to_account_id = Some (account_id src), amount = a,
                       txn_type = Some ''transfer'', description = req_description data,
                       txn_created_at = utcnow e\<rparr>]\<rparr>))"
proof (intro conjI allI impI)
  assume "dec_less (Finite (balance src)) amt"
  then have "dec_ge (Finite (balance src)) amt = Some False"
    by (rule dec_less_not_ge)
  with assms show "snd (create_transaction e uid data db) = db"
    by (simp add: create_transaction_def Let_def rollback_def close_session_def
        committed_SessionLocal process_def attr_balance_SessionLocal)
next
  fix v a
  assume h: "dec_ge (Finite (balance src)) amt = Some True \<and>
            dec_sub (getcontext e) (Finite (balance src)) amt = Some v \<and>
            dec_add (getcontext e) v amt = Some (Finite (balance src)) \<and>
            store_decimal e amt = Some a \<and> fault e = None"
  let ?s = "SessionLocal db"
  let ?s2 = "?s\<lparr>dirty := [account_id src \<mapsto> Finite (balance src)]\<rparr>"
  let ?t = "new_transaction data amt src (Some tgt)"
  have p: "process e (req_type data) amt src (Some tgt) ?s = Inr ?s2"
    using h assms(2,5)
    by (simp add: process_def attr_balance_SessionLocal sub_balance_def add_balance_def
        attr_balance_def dirty_SessionLocal)
  have src: "src \<in> set (accounts db)"
    using assms(3) by (rule validate_in_accounts)
  have fl: "flush_account e (session_add ?t ?s2) row = Some row"
    if row: "row \<in> set (accounts db)" for row
  proof (cases "account_id row = account_id src")
    case True
    with same_key_same_row [OF assms(6) row src] have "row = src" by simp
    then show ?thesis
      by (simp add: flush_account_def session_add_def)
  next
    case False
    then show ?thesis
      by (simp add: flush_account_def session_add_def)
  qed
  have c: "commit e (session_add ?t ?s2) =
      Some (db\<lparr>transactions := transactions db @
                     [\<lparr>txn_id = assigned_id e, from_account_id = Some (account_id src),
                       to_account_id = Some (account_id src), amount = a,
                       txn_type = Some ''transfer'', description = req_description data,
                       txn_created_at = utcnow e\<rparr>]\<rparr>)"
    using h assms(2,5) traverse_id [of "accounts db" "flush_account e (session_add ?t ?s2)", OF fl]
    by (simp add: commit_def committed_session_add added_session_add committed_SessionLocal
        added_SessionLocal insert_transaction_def new_transaction_def)
  from assms(1,3,4) h p c
  show "create_transaction e uid data db =
              (Message ''Transaction completed successfully'' 201,
               db\<lparr>transactions := transactions db @
                     [\<lparr>txn_id = assigned_id e, from_account_id = Some (account_id src),
                       to_account_id = Some (account_id src), amount = a,
                       txn_type = Some ''transfer'', description = req_description data,
                       txn_created_at = utcnow e\<rparr>]\<rparr>)"
    by (simp add: create_transaction_def Let_def)
qed

text \<open>
  The transfers of 10 and of 250 from \<^verbatim>\<open>A1\<close> to \<^verbatim>\<open>A1\<close>.
\<close>

theorem self_transfer_not_rejected_witness:
  "validate_account_owner_by_number 1
     (from_account_number (order ''transfer'' ''A1'' (Some ''A1'') (Parsed (Finite 10))))
     (SessionLocal two_accounts) = Some alice_current \<and>
   query_to_account
     (to_account_number (order ''transfer'' ''A1'' (Some ''A1'') (Parsed (Finite 10))))
     (SessionLocal two_accounts) = Some alice_current \<and>
   distinct (map account_id (accounts two_accounts)) \<and>
   dec_ge (Finite (balance alice_current)) (Finite 10) = Some True \<and>
   dec_sub (getcontext calm) (Finite (balance alice_current)) (Finite 10) = Some (Finite 90) \<and>
   dec_add (getcontext calm) (Finite 90) (Finite 10) = Some (Finite (balance alice_current)) \<and>
   store_decimal calm (Finite 10) = Some 10 \<and> fault calm = None \<and>
   create_transaction calm 1 (order ''transfer'' ''A1'' (Some ''A1'') (Parsed (Finite 10)))
       two_accounts
     = (Message ''Transaction completed successfully'' 201,
        two_accounts\<lparr>transactions := transactions two_accounts @
           [\<lparr>txn_id = assigned_id calm, from_account_id = Some (account_id alice_current),
             to_account_id = Some (account_id alice_current), amount = 10,
             txn_type = Some ''transfer'',
             description = req_description
               (order ''transfer'' ''A1'' (Some ''A1'') (Parsed (Finite 10))),
             txn_created_at = utcnow calm\<rparr>]\<rparr>) \<and>
   dec_less (Finite (balance alice_current)) (Finite 250) \<and>
   snd (create_transaction calm 1 (order ''transfer'' ''A1'' (Some ''A1'') (Parsed (Finite 250)))
       two_accounts) = two_accounts"
proof -
  let ?d = "order ''transfer'' ''A1'' (Some ''A1'') (Parsed (Finite 10))"
  let ?b = "order ''transfer'' ''A1'' (Some ''A1'') (Parsed (Finite 250))"
  have a: "req_amount ?d = Parsed (Finite 10)" and b: "req_type ?d = Some ''transfer''"
    and a': "req_amount ?b = Parsed (Finite 250)" and b': "req_type ?b = Some ''transfer''"
    by (simp_all add: order_def)
  have c: "validate_account_owner_by_number 1 (from_account_number ?d)
     (SessionLocal two_accounts) = Some alice_current"
    and c': "validate_account_owner_by_number 1 (from_account_number ?b)
     (SessionLocal two_accounts) = Some alice_current"
    by code_simp+
  have d: "query_to_account (to_account_number ?d) (SessionLocal two_accounts)
     = Some alice_current"
    and d': "query_to_account (to_account_number ?b) (SessionLocal two_accounts)
     = Some alice_current"
    by code_simp+
  have k: "distinct (map account_id (accounts two_accounts))" by code_simp
  have h: "dec_ge (Finite (balance alice_current)) (Finite 10) = Some True \<and>
       dec_sub (getcontext calm) (Finite (balance alice_current)) (Finite 10) = Some (Finite 90) \<and>
       dec_add (getcontext calm) (Finite 90) (Finite 10) = Some (Finite (balance alice_current)) \<and>
       store_decimal calm (Finite 10) = Some 10 \<and> fault calm = None"
    by code_simp
  have l: "dec_less (Finite (balance alice_current)) (Finite 250)" by code_simp
  from self_transfer_not_rejected [OF a b c d refl k, of calm, THEN conjunct2] h
  have 1: "create_transaction calm 1 ?d two_accounts
     = (Message ''Transaction completed successfully'' 201,
        two_accounts\<lparr>transactions := transactions two_accounts @
           [\<lparr>txn_id = assigned_id calm, from_account_id = Some (account_id alice_current),
             to_account_id = Some (account_id alice_current), amount = 10,
             txn_type = Some ''transfer'', description = req_description ?d,
             txn_created_at = utcnow calm\<rparr>]\<rparr>)"
    by blast
  from self_transfer_not_rejected [OF a' b' c' d' refl k, of calm, THEN conjunct1] l
  have 2: "snd (create_transaction calm 1 ?b two_accounts) = two_accounts" by blast
  from c d k h l 1 2 show ?thesis by simp
qed

subsection \<open>The references of a ledger entry\<close>

text \<open>
  Claim C8, as the code has it. The target is looked up and recorded for every kind: a
  withdrawal that names a target number writes an entry with a target reference.
\<close>

theorem withdrawal_entry_with_target:
  "create_transaction calm 1 (order ''withdrawal'' ''A1'' (Some ''B2'') (Parsed (Finite 10)))
       two_accounts
     = (Message ''Transaction completed successfully'' 201,
        \<lparr>accounts = [alice_current\<lparr>balance := 90, updated_at := 7\<rparr>, bob_savings],
         transactions = [\<lparr>txn_id = 1, from_account_id = Some 1, to_account_id = Some 2,
            amount = 10, txn_type = Some ''withdrawal'', description = Some [],
            txn_created_at = 7\<rparr>]\<rparr>)"
  by code_simp

text \<open>
  Claim C8, amended. A request appends at most one entry to the ledger and leaves the
  entries written before as they were. The new entry always has its source reference, the
  key of the caller's source account; its target reference is the key of the account the
  target number resolved to, and absent exactly when it resolved to none, whatever the
  kind; a transfer entry has both references.
\<close>

theorem committed_entry_references:
  assumes "create_transaction e uid data db = (reply, db')"
  shows "\<exists>new. transactions db' = transactions db @ new \<and> length new \<le> 1 \<and>
     (\<forall>t \<in> set new.
        (\<exists>src. validate_account_owner_by_number uid (from_account_number data) (SessionLocal db)
                 = Some src \<and> from_account_id t = Some (account_id src)) \<and>
        to_account_id t = map_option account_id
           (query_to_account (to_account_number data) (SessionLocal db)) \<and>
        txn_type t = req_type data \<and>
        (txn_type t = Some ''transfer'' \<longrightarrow> to_account_id t \<noteq> None))"
proof (cases "reply = Message ''Transaction completed successfully'' 201")
  case True
  with assms obtain amt src s1 a where
    v: "validate_account_owner_by_number uid (from_account_number data) (SessionLocal db)
          = Some src"
    and p: "process e (req_type data) amt src
              (query_to_account (to_account_number data) (SessionLocal db)) (SessionLocal db)
              = Inr s1"
    and t: "transactions db' = transactions db @ [entry e data a src db]"
    using create_transaction_committed [of e uid data db db'] by blast
  from process_Inr [OF p]
  have "req_type data = Some ''transfer'' \<longrightarrow>
          query_to_account (to_account_number data) (SessionLocal db) \<noteq> None"
    by auto
  with v t show ?thesis
    by (intro exI [of _ "[entry e data a src db]"]) (auto simp: entry_def)
next
  case False
  with create_transaction_result [OF assms] have "db' = db" by auto
  then show ?thesis by (intro exI [of _ "[]"]) simp
qed

text \<open>
  The withdrawal of 10 that names the target \<^verbatim>\<open>B2\<close>.
\<close>

theorem committed_entry_references_witness:
  "create_transaction calm 1 (order ''withdrawal'' ''A1'' (Some ''B2'') (Parsed (Finite 10)))
       two_accounts
     = (Message ''Transaction completed successfully'' 201,
        \<lparr>accounts = [alice_current\<lparr>balance := 90, updated_at := 7\<rparr>, bob_savings],
         transactions = [\<lparr>txn_id = 1, from_account_id = Some 1, to_account_id = Some 2,
            amount = 10, txn_type = Some ''withdrawal'', description = Some [],
            txn_created_at = 7\<rparr>]\<rparr>) \<and>
   validate_account_owner_by_number 1 (Some ''A1'') (SessionLocal two_accounts)
     = Some alice_current \<and>
   map_option account_id (query_to_account (Some ''B2'') (SessionLocal two_accounts)) = Some 2"
proof -
  have h: "create_transaction calm 1
       (order ''withdrawal'' ''A1'' (Some ''B2'') (Parsed (Finite 10))) two_accounts
     = (Message ''Transaction completed successfully'' 201,
        \<lparr>accounts = [alice_current\<lparr>balance := 90, updated_at := 7\<rparr>, bob_savings],
         transactions = [\<lparr>txn_id = 1, from_account_id = Some 1, to_account_id = Some 2,
            amount = 10, txn_type = Some ''withdrawal'', description = Some [],
            txn_created_at = 7\<rparr>]\<rparr>)"
    by code_simp
  have g: "validate_account_owner_by_number 1 (Some ''A1'') (SessionLocal two_accounts)
     = Some alice_current \<and>
   map_option account_id (query_to_account (Some ''B2'') (SessionLocal two_accounts)) = Some 2"
    by code_simp
  from committed_entry_references [OF h] h g show ?thesis by simp
qed

subsection \<open>Whole cents, the column type and the default context\<close>

lemma is_cents_iff: "is_cents x \<longleftrightarrow> (\<exists>m::int. 100 * x = of_int m)"
  by (auto simp: is_cents_def)

lemma is_cents_add: "is_cents x \<Longrightarrow> is_cents y \<Longrightarrow> is_cents (x + y)"
  unfolding is_cents_iff
proof -
  assume "\<exists>m::int. 100 * x = of_int m" and "\<exists>m::int. 100 * y = of_int m"
  then obtain m n :: int where "100 * x = of_int m" "100 * y = of_int n" by blast
  then have "100 * (x + y) = of_int (m + n)" by (simp add: algebra_simps)
  then show "\<exists>m::int. 100 * (x + y) = of_int m" ..
qed

lemma is_cents_minus: "is_cents x \<Longrightarrow> is_cents (- x)"
  unfolding is_cents_iff
proof -
  assume "\<exists>m::int. 100 * x = of_int m"
  then obtain m :: int where "100 * x = of_int m" ..
  then have "100 * (- x) = of_int (- m)" by simp
  then show "\<exists>m::int. 100 * (- x) = of_int m" ..
qed

lemma is_cents_diff: "is_cents x \<Longrightarrow> is_cents y \<Longrightarrow> is_cents (x - y)"
  using is_cents_add [of x "- y"] is_cents_minus [of y] by simp

lemma floor_half: "\<lfloor>1 / 2 :: rat\<rfloor> = 0"
  by (rule floor_unique) simp_all

lemma round_half_away_of_int: "round_half_away (of_int m) = m"
proof -
  have a: "\<lfloor>(of_int m :: rat) + 1 / 2\<rfloor> = m" by (rule floor_unique) simp_all
  have "\<lfloor>(of_int (- m) :: rat) + 1 / 2\<rfloor> = - m" by (rule floor_unique) simp_all
  then have b: "\<lfloor>- (of_int m :: rat) + 1 / 2\<rfloor> = - m" by (simp only: of_int_minus)
  show ?thesis
    unfolding round_half_away_def by (simp only: a b) simp
qed

lemma decimal_10_2_fits:
  assumes "decimal_10_2 d = Some r"
  shows "fits_column r"
proof -
  from assms obtain x where d: "d = Finite x"
    by (cases d) (simp_all add: decimal_10_2_def)
  define n where "n = round_half_away (100 * x)"
  from assms have "(if \<bar>rat_of_int n / 100\<bar> < 10 ^ 8 then Some (rat_of_int n / 100) else None)
      = Some r"
    unfolding decimal_10_2_def d n_def by (simp only: decimal.case Let_def)
  then have r: "r = of_int n / 100" and b: "\<bar>r\<bar> < 10 ^ 8"
    by (metis option.distinct(1) option.inject)+
  from r have "100 * r = of_int n" by simp
  then have "is_cents r" unfolding is_cents_iff ..
  with b show ?thesis by (simp add: fits_column_def)
qed

lemma decimal_10_2_cents:
  assumes "is_cents x"
  shows "decimal_10_2 (Finite x) = (if \<bar>x\<bar> < 10 ^ 8 then Some x else None)"
proof -
  from assms obtain m :: int where m: "100 * x = of_int m"
    by (auto simp: is_cents_iff)
  have "round_half_away (100 * x) = m"
    by (simp only: m round_half_away_of_int)
  moreover from m have "of_int m / 100 = x" by simp
  ultimately have "of_int (round_half_away (100 * x)) / 100 = x" by simp
  then show ?thesis
    unfolding decimal_10_2_def by (simp only: decimal.case Let_def)
qed

lemma adjusted_le:
  assumes "\<bar>x\<bar> < 10 ^ 9"
  shows "adjusted x \<le> 8"
proof (cases "1 \<le> \<bar>x\<bar>")
  case True
  from assms have "\<lfloor>\<bar>x\<bar>\<rfloor> < 10 ^ 9"
    by (metis floor_less_iff of_int_numeral of_int_power)
  then have "nat \<lfloor>\<bar>x\<bar>\<rfloor> < 10 ^ 9"
    by (simp add: nat_less_iff)
  then have "floorlog 10 (nat \<lfloor>\<bar>x\<bar>\<rfloor>) \<le> 9"
    by (intro floorlog_leI) simp_all
  with True show ?thesis by (simp add: adjusted_def)
next
  case False
  then show ?thesis by (simp add: adjusted_def)
qed

lemma round_half_even_of_int: "round_half_even (of_int z) = z"
  by (simp add: round_half_even_def)

lemma default_context_cents:
  assumes c: "is_cents x" and b: "\<bar>x\<bar> < 10 ^ 9"
  shows "default_context x = Some x"
proof (cases "x = 0")
  case True
  then show ?thesis by (simp add: default_context_def)
next
  case False
  define q where "q = max (adjusted x - 27) (- 1000026)"
  define n where "n = nat (- q)"
  from adjusted_le [OF b] have q: "q \<le> - 2" "q < 0"
    by (simp_all add: q_def)
  then have n: "2 \<le> n" "- q = int n" by (simp_all add: n_def)
  from c obtain m :: int where m: "100 * x = of_int m"
    by (auto simp: is_cents_iff)
  then have "100 * \<bar>x\<bar> = of_int \<bar>m\<bar>"
    by (metis abs_mult abs_numeral of_int_abs)
  moreover have "(10::rat) ^ n = 100 * 10 ^ (n - 2)"
  proof -
    from n obtain k where "n = k + 2" by (metis le_add_diff_inverse2)
    then show ?thesis by (simp add: power_add)
  qed
  ultimately have "\<bar>x\<bar> * 10 ^ n = of_int (\<bar>m\<bar> * 10 ^ (n - 2))"
    by simp
  then have s: "scale10 \<bar>x\<bar> (- q) = of_int (\<bar>m\<bar> * 10 ^ (n - 2))"
    using q by (simp add: scale10_def n_def)
  have "scale10 (of_int (round_half_even (scale10 \<bar>x\<bar> (- q)))) q = \<bar>x\<bar> * 10 ^ n / 10 ^ n"
    using q \<open>\<bar>x\<bar> * 10 ^ n = of_int (\<bar>m\<bar> * 10 ^ (n - 2))\<close>
    by (simp only: s round_half_even_of_int) (simp add: scale10_def n_def)
  then have "scale10 (of_int (round_half_even (scale10 \<bar>x\<bar> (- q)))) q = \<bar>x\<bar>"
    by simp
  then have v: "sgn x * scale10 (of_int (round_half_even (scale10 \<bar>x\<bar> (- q)))) q = x"
    by (simp add: sgn_mult_abs)
  from adjusted_le [OF b] have "\<not> 999999 < adjusted x" by simp
  with False v show ?thesis
    by (simp add: default_context_def Let_def q_def [symmetric])
qed

text \<open>
  Python's default context and the column of a server in strict mode store whole cents
  exactly.
\<close>

lemma exact_storage_default:
  assumes "getcontext e = default_context" and "store_decimal e = decimal_10_2"
  shows "exact_storage e"
  using assms
  by (auto simp: exact_storage_def decimal_10_2_fits decimal_10_2_cents default_context_cents)

subsection \<open>Conservation\<close>

lemma credits_snoc: "credits (ts @ [t]) i = credits ts i + credit t i"
  by (simp add: credits_def)

lemma debits_snoc: "debits (ts @ [t]) i = debits ts i + debit t i"
  by (simp add: debits_def)

lemma fits_column_sum:
  assumes "fits_column b" and "fits_column x"
  shows "is_cents (b + x) \<and> \<bar>b + x\<bar> < 10 ^ 9 \<and> is_cents (b - x) \<and> \<bar>b - x\<bar> < 10 ^ 9"
  using assms by (auto simp: fits_column_def is_cents_add is_cents_diff)

lemma exact_add:
  assumes "exact_storage e" and "fits_column b" and "fits_column x"
  shows "dec_add (getcontext e) (Finite b) (Finite x) = Some (Finite (b + x))"
    and "dec_sub (getcontext e) (Finite b) (Finite x) = Some (Finite (b - x))"
  using assms(1) fits_column_sum [OF assms(2,3)]
  by (simp_all add: exact_storage_def dec_sub_def)

lemma exact_add_back:
  assumes "exact_storage e" and "fits_column b" and "fits_column x"
  shows "dec_add (getcontext e) (Finite (b - x)) (Finite x) = Some (Finite b)"
proof -
  from assms(2) have "is_cents (b - x + x) \<and> \<bar>b - x + x\<bar> < 10 ^ 9"
    by (simp add: fits_column_def)
  with assms(1) show ?thesis by (simp add: exact_storage_def)
qed

text \<open>
  With exact storage, the pending balance of a row is the loaded one plus what the entry
  credits to and minus what it debits from the row's key.
\<close>

lemma process_exact:
  assumes ex: "exact_storage e"
    and x: "fits_column x"
    and ws: "well_stored db"
    and src: "src \<in> set (accounts db)"
    and tgt: "\<And>t. tgt = Some t \<Longrightarrow> t \<in> set (accounts db)"
    and p: "process e kind (Finite x) src tgt (SessionLocal db) = Inr s1"
    and T: "from_account_id T = Some (account_id src)"
      "to_account_id T = map_option account_id tgt" "txn_type T = kind" "amount T = x"
    and r: "r \<in> set (accounts db)"
  shows "case dirty s1 (account_id r) of
           None \<Rightarrow> credit T (account_id r) = debit T (account_id r)
         | Some d \<Rightarrow> d = Finite (balance r + credit T (account_id r) - debit T (account_id r)) \<and>
                     is_cents (balance r + credit T (account_id r) - debit T (account_id r))"
proof -
  from ws have dist: "distinct (map account_id (accounts db))"
    and fits: "\<And>a. a \<in> set (accounts db) \<Longrightarrow> fits_column (balance a)"
    by (simp_all add: well_stored_def)
  have same: "r = src" if "account_id r = account_id src"
    using same_key_same_row [OF dist r src that] .
  note fs = fits [OF src]
  from process_Inr [OF p] consider
      (dep) v where "kind = Some ''deposit''"
        "dec_add (getcontext e) (attr_balance (SessionLocal db) src) (Finite x) = Some v"
        "s1 = (SessionLocal db)\<lparr>dirty := (dirty (SessionLocal db))(account_id src \<mapsto> v)\<rparr>"
    | (wd) v where "kind = Some ''withdrawal''"
        "dec_sub (getcontext e) (attr_balance (SessionLocal db) src) (Finite x) = Some v"
        "s1 = (SessionLocal db)\<lparr>dirty := (dirty (SessionLocal db))(account_id src \<mapsto> v)\<rparr>"
    | (tr) t v w where "kind = Some ''transfer''" "tgt = Some t"
        "dec_sub (getcontext e) (attr_balance (SessionLocal db) src) (Finite x) = Some v"
        "dec_add (getcontext e)
           (attr_balance ((SessionLocal db)\<lparr>dirty := (dirty (SessionLocal db))(account_id src \<mapsto> v)\<rparr>) t)
           (Finite x) = Some w"
        "s1 = (SessionLocal db)\<lparr>dirty := (dirty (SessionLocal db))
                 (account_id src \<mapsto> v, account_id t \<mapsto> w)\<rparr>"
    by blast
  then show ?thesis
  proof cases
    case dep
    with exact_add(1) [OF ex fs x] have v: "v = Finite (balance src + x)"
      by (simp add: attr_balance_SessionLocal)
    from fits_column_sum [OF fs x] dep v T same show ?thesis
      by (auto simp: dirty_SessionLocal credit_def debit_def)
  next
    case wd
    with exact_add(2) [OF ex fs x] have v: "v = Finite (balance src - x)"
      by (simp add: attr_balance_SessionLocal)
    from fits_column_sum [OF fs x] wd v T same show ?thesis
      by (auto simp: dirty_SessionLocal credit_def debit_def)
  next
    case tr
    with exact_add(2) [OF ex fs x] have v: "v = Finite (balance src - x)"
      by (simp add: attr_balance_SessionLocal)
    from tgt tr have t: "t \<in> set (accounts db)" by simp
    have same_t: "r = t" if "account_id r = account_id t"
      using same_key_same_row [OF dist r t that] .
    show ?thesis
    proof (cases "account_id t = account_id src")
      case True
      with same_key_same_row [OF dist t src] have ts: "t = src" by simp
      from tr(4) v ts exact_add_back [OF ex fs x] have w: "w = Finite (balance src)"
        by (simp add: attr_balance_def)
      from fs tr w T ts same show ?thesis
        by (auto simp: dirty_SessionLocal credit_def debit_def fits_column_def)
    next
      case False
      with tr(4) exact_add(1) [OF ex fits [OF t] x] have w: "w = Finite (balance t + x)"
        by (simp add: attr_balance_def dirty_SessionLocal)
      from fits_column_sum [OF fs x] fits_column_sum [OF fits [OF t] x] False tr v w T same same_t
      show ?thesis
        by (auto simp: dirty_SessionLocal credit_def debit_def)
    qed
  qed
qed

lemma flush_exact:
  assumes ex: "exact_storage e"
    and fl: "flush_account e s r = Some r'"
    and d: "case dirty s (account_id r) of
              None \<Rightarrow> c = 0
            | Some d \<Rightarrow> d = Finite (balance r + c) \<and> is_cents (balance r + c)"
    and f: "fits_column (balance r)"
  shows "balance r' = balance r + c \<and> fits_column (balance r')"
proof (cases "dirty s (account_id r)")
  case None
  with fl d f show ?thesis by (simp add: flush_account_def)
next
  case (Some v)
  with d have v: "v = Finite (balance r + c)" and c: "is_cents (balance r + c)" by simp_all
  show ?thesis
  proof (cases "c = 0")
    case True
    with fl Some v f show ?thesis by (simp add: flush_account_def)
  next
    case False
    with fl Some v obtain y where y: "store_decimal e (Finite (balance r + c)) = Some y"
      and r': "r' = r\<lparr>balance := y, updated_at := utcnow e\<rparr>"
      by (auto simp: flush_account_def)
    from ex c y have "y = balance r + c \<and> fits_column y"
      by (auto simp: exact_storage_def)
    with r' show ?thesis by auto
  qed
qed

lemma create_transaction_exact:
  assumes ex: "exact_storage e" and cr: "cents_request data" and ws: "well_stored db"
    and cons: "conserved init db"
  shows "well_stored (snd (create_transaction e uid data db)) \<and>
         conserved init (snd (create_transaction e uid data db))"
proof -
  obtain reply db' where res: "create_transaction e uid data db = (reply, db')"
    by (cases "create_transaction e uid data db")
  have "well_stored db' \<and> conserved init db'"
  proof (cases "reply = Message ''Transaction completed successfully'' 201")
    case False
    with create_transaction_result [OF res] ws cons show ?thesis by auto
  next
    case True
    let ?tgt = "query_to_account (to_account_number data) (SessionLocal db)"
    from True res obtain amt src s1 a where
      am: "req_amount data = Parsed amt"
      and v: "validate_account_owner_by_number uid (from_account_number data) (SessionLocal db)
            = Some src"
      and p: "process e (req_type data) amt src ?tgt (SessionLocal db) = Inr s1"
      and st: "store_decimal e amt = Some a"
      and t: "transactions db' = transactions db @ [entry e data a src db]"
      and rows: "list_all2 (\<lambda>row row'. flush_account e s1 row = Some row')
                (accounts db) (accounts db')"
      using create_transaction_committed [of e uid data db db'] by blast
    from cr am obtain x where amt: "amt = Finite x" and x: "fits_column x"
      by (auto simp: cents_request_def split: decimal.splits)
    from ex x st amt have a: "a = x"
      by (auto simp: exact_storage_def fits_column_def)
    let ?T = "entry e data x src db"
    have src: "src \<in> set (accounts db)" using v by (rule validate_in_accounts)
    have len: "length (accounts db') = length (accounts db)"
      using rows by (simp add: list_all2_lengthD)
    have row: "account_id (accounts db' ! k) = account_id (accounts db ! k) \<and>
        balance (accounts db' ! k) = balance (accounts db ! k)
           + (credit ?T (account_id (accounts db ! k)) - debit ?T (account_id (accounts db ! k))) \<and>
        fits_column (balance (accounts db' ! k))"
      if k: "k < length (accounts db)" for k
    proof -
      let ?r = "accounts db ! k"
      from k have r: "?r \<in> set (accounts db)" by simp
      from list_all2_nthD [OF rows k]
      have fl: "flush_account e s1 ?r = Some (accounts db' ! k)" .
      from ws r have f: "fits_column (balance ?r)" by (simp add: well_stored_def)
      have "case dirty s1 (account_id ?r) of
           None \<Rightarrow> credit ?T (account_id ?r) = debit ?T (account_id ?r)
         | Some d \<Rightarrow> d = Finite (balance ?r + credit ?T (account_id ?r) - debit ?T (account_id ?r)) \<and>
                     is_cents (balance ?r + credit ?T (account_id ?r) - debit ?T (account_id ?r))"
        by (rule process_exact [OF ex x ws src _ p [unfolded amt] _ _ _ _ r])
           (simp_all add: entry_def query_in_accounts)
      then have "case dirty s1 (account_id ?r) of
              None \<Rightarrow> credit ?T (account_id ?r) - debit ?T (account_id ?r) = 0
            | Some d \<Rightarrow> d = Finite (balance ?r + (credit ?T (account_id ?r) - debit ?T (account_id ?r))) \<and>
                  is_cents (balance ?r + (credit ?T (account_id ?r) - debit ?T (account_id ?r)))"
        by (simp add: algebra_simps split: option.splits)
      from flush_exact [OF ex fl this f] flush_account_fields [OF fl] show ?thesis by blast
    qed
    have row_id: "account_id (accounts db' ! k) = account_id (accounts db ! k)"
      if "k < length (accounts db)" for k
      using row [OF that] by blast
    have row_fits: "fits_column (balance (accounts db' ! k))"
      if "k < length (accounts db)" for k
      using row [OF that] by blast
    have row_balance: "balance (accounts db' ! k) = balance (accounts db ! k)
           + (credit ?T (account_id (accounts db ! k)) - debit ?T (account_id (accounts db ! k)))"
      if "k < length (accounts db)" for k
      using row [OF that] by blast
    have ids: "map account_id (accounts db') = map account_id (accounts db)"
      using len row_id by (simp add: list_eq_iff_nth_eq)
    have w': "well_stored db'"
      unfolding well_stored_def
    proof (intro conjI ballI)
      from ws ids show "distinct (map account_id (accounts db'))"
        by (simp add: well_stored_def)
    next
      fix y assume "y \<in> set (accounts db')"
      then obtain k where "k < length (accounts db')" "y = accounts db' ! k"
        by (auto simp: in_set_conv_nth)
      with len row_fits show "fits_column (balance y)" by simp
    qed
    have c': "conserved init db'"
      unfolding conserved_def
    proof
      fix y assume "y \<in> set (accounts db')"
      then obtain k where k: "k < length (accounts db')" and y: "y = accounts db' ! k"
        by (auto simp: in_set_conv_nth)
      let ?r = "accounts db ! k"
      from k len have "?r \<in> set (accounts db)" by simp
      with cons have "balance ?r - credits (transactions db) (account_id ?r)
          + debits (transactions db) (account_id ?r) = init (account_id ?r)"
        by (simp add: conserved_def)
      with row_id [of k] row_balance [of k] k len y
      show "balance y - credits (transactions db') (account_id y)
          + debits (transactions db') (account_id y) = init (account_id y)"
        by (simp add: t a credits_snoc debits_snoc)
    qed
    from w' c' show ?thesis ..
  qed
  with res show ?thesis by simp
qed

lemma run_exact:
  assumes "\<forall>step \<in> set steps. exact_storage (fst step) \<and> cents_request (snd (snd step))"
    and "well_stored db" and "conserved init db"
  shows "conserved init (run steps db)"
  using assms
proof (induction steps arbitrary: db)
  case Nil
  then show ?case by simp
next
  case (Cons step steps)
  obtain e uid data where s: "step = (e, uid, data)" by (cases step)
  with Cons.prems have "exact_storage e" "cents_request data" by simp_all
  from create_transaction_exact [OF this Cons.prems(2,3), of uid] Cons.prems(1) s
  show ?case by (simp add: Cons.IH)
qed

lemma find_by_key:
  "distinct (map f xs) \<Longrightarrow> a \<in> set xs \<Longrightarrow> find (\<lambda>b. f b = f a) xs = Some a"
  by (induction xs) (auto simp: image_iff)

lemma provisioned_conserved:
  assumes "distinct (map account_id (accounts db))" and "transactions db = []"
  shows "conserved (provisioned db) db"
  using assms
  by (simp add: conserved_def provisioned_def credits_def debits_def find_by_key)

text \<open>
  Claim C7, as the code has it. The amount is never quantized, and the balance and the
  amount are rounded by their columns one by one: a withdrawal of 0.005 from 100.00 is
  committed, the balance 99.995 is stored as 100.00 and the amount as 0.01, and the
  conservation predicate, true before, is false after.
\<close>

theorem half_cent_breaks_conservation:
  "conserved (provisioned two_accounts) two_accounts \<and>
   create_transaction calm 1 (order ''withdrawal'' ''A1'' None (Parsed (Finite (5 / 1000))))
       two_accounts
     = (Message ''Transaction completed successfully'' 201,
        \<lparr>accounts = [alice_current\<lparr>updated_at := 7\<rparr>, bob_savings],
         transactions = [\<lparr>txn_id = 1, from_account_id = Some 1, to_account_id = None,
            amount = 1 / 100, txn_type = Some ''withdrawal'', description = Some [],
            txn_created_at = 7\<rparr>]\<rparr>) \<and>
   \<not> conserved (provisioned two_accounts)
       (snd (create_transaction calm 1
          (order ''withdrawal'' ''A1'' None (Parsed (Finite (5 / 1000)))) two_accounts))"
  by code_simp

text \<open>
  Claim C7, amended. With a deposit entry read as a credit to its source account, a
  transfer entry as a debit from its source and a credit to its target, and a withdrawal
  entry as a debit from its source: on a database with distinct primary keys whose
  balances fit the column, every request whose amount is a number of whole cents that
  fits the column preserves the conservation predicate, and so does every sequence of
  such requests, provided the storage is exact on whole cents (the column stores such a
  value as it is or refuses it, the context does not round it). Starting from an empty
  ledger, the provisioned balances are the balances of that database.
\<close>

theorem ledger_conservation_exact:
  assumes "\<forall>step \<in> set steps. exact_storage (fst step) \<and> cents_request (snd (snd step))"
    and "well_stored db"
  shows "(conserved init db \<longrightarrow> conserved init (run steps db)) \<and>
         (transactions db = [] \<longrightarrow> conserved (provisioned db) (run steps db))"
proof (intro conjI impI)
  assume "conserved init db"
  with assms show "conserved init (run steps db)"
    by (rule run_exact)
next
  assume "transactions db = []"
  with assms(2) have "conserved (provisioned db) db"
    by (simp add: provisioned_conserved well_stored_def)
  with assms show "conserved (provisioned db) (run steps db)"
    by (rule run_exact)
qed

text \<open>
  Five requests on the two sample accounts, in Python's default context and with a
  column in strict mode: a deposit, a transfer, a withdrawal whose commit raises, a
  withdrawal of too much, and a withdrawal.
\<close>

theorem ledger_conservation_exact_witness:
  "exact_storage calm \<and> exact_storage commit_down \<and> well_stored two_accounts \<and>
   transactions two_accounts = [] \<and>
   conserved (provisioned two_accounts) two_accounts \<and>
   conserved (provisioned two_accounts) (run busy_day two_accounts) \<and>
   map balance (accounts (run busy_day two_accounts)) = [85, 75] \<and>
   map amount (transactions (run busy_day two_accounts)) = [25, 40, 15]"
proof -
  have e: "exact_storage calm" "exact_storage commit_down"
    by (rule exact_storage_default; simp add: calm_def commit_down_def)+
  have c: "list_all (\<lambda>step. cents_request (snd (snd step))) busy_day"
    by code_simp
  have s: "set (map fst busy_day) \<subseteq> {calm, commit_down}"
    by (simp add: busy_day_def)
  have steps: "\<forall>step \<in> set busy_day. exact_storage (fst step) \<and> cents_request (snd (snd step))"
  proof
    fix step assume m: "step \<in> set busy_day"
    with s have "fst step = calm \<or> fst step = commit_down" by auto
    with e have "exact_storage (fst step)" by auto
    moreover from c m have "cents_request (snd (snd step))" by (simp add: list_all_iff)
    ultimately show "exact_storage (fst step) \<and> cents_request (snd (snd step))" ..
  qed
  have w: "well_stored two_accounts" by code_simp
  have t: "transactions two_accounts = []" by (simp add: two_accounts_def)
  have b: "map balance (accounts (run busy_day two_accounts)) = [85, 75] \<and>
   map amount (transactions (run busy_day two_accounts)) = [25, 40, 15]"
    by code_simp
  from ledger_conservation_exact [OF steps w, of "provisioned two_accounts"] t
  have 1: "conserved (provisioned two_accounts) (run busy_day two_accounts)" by blast
  have "\<forall>step \<in> set []. exact_storage (fst step) \<and> cents_request (snd (snd step))"
    by simp
  from ledger_conservation_exact [OF this w, of "provisioned two_accounts"] t
  have 0: "conserved (provisioned two_accounts) two_accounts" by simp
  from e w t 0 1 b show ?thesis by simp
qed

subsection \<open>Frame\<close>

text \<open>
  Claim C10. After a committed request the accounts table has the same rows in the same
  places; every row keeps its key, owner, type, number and creation time; a row whose key
  is neither that of the source nor, for a transfer, that of the resolved target is equal
  to what it was; and the ledger is the old ledger with one entry appended.
\<close>

theorem committed_transaction_frame:
  assumes "create_transaction e uid data db =
             (Message ''Transaction completed successfully'' 201, db')"
  shows "\<exists>src. validate_account_owner_by_number uid (from_account_number data) (SessionLocal db)
                 = Some src \<and>
     length (accounts db') = length (accounts db) \<and>
     (\<exists>t. transactions db' = transactions db @ [t]) \<and>
     (\<forall>k<length (accounts db).
        account_id (accounts db' ! k) = account_id (accounts db ! k) \<and>
        user_id (accounts db' ! k) = user_id (accounts db ! k) \<and>
        account_type (accounts db' ! k) = account_type (accounts db ! k) \<and>
        account_number (accounts db' ! k) = account_number (accounts db ! k) \<and>
        created_at (accounts db' ! k) = created_at (accounts db ! k) \<and>
        (account_id (accounts db ! k) \<noteq> account_id src \<and>
         \<not> (req_type data = Some ''transfer'' \<and>
            map_option account_id (query_to_account (to_account_number data) (SessionLocal db))
              = Some (account_id (accounts db ! k)))
         \<longrightarrow> accounts db' ! k = accounts db ! k))"
proof -
  let ?tgt = "query_to_account (to_account_number data) (SessionLocal db)"
  from create_transaction_committed [OF assms] obtain amt src s1 a where
    v: "validate_account_owner_by_number uid (from_account_number data) (SessionLocal db)
          = Some src"
    and p: "process e (req_type data) amt src ?tgt (SessionLocal db) = Inr s1"
    and t: "transactions db' = transactions db @ [entry e data a src db]"
    and r: "list_all2 (\<lambda>row row'. flush_account e s1 row = Some row')
              (accounts db) (accounts db')"
    by blast
  from r have len: "length (accounts db') = length (accounts db)"
    by (simp add: list_all2_lengthD)
  have dom: "dom (dirty s1) \<subseteq> {account_id src} \<union>
      (if req_type data = Some ''transfer'' then account_id ` set_option ?tgt else {})"
    by (rule process_dirty_dom [OF p dirty_SessionLocal])
  have rows: "account_id (accounts db' ! k) = account_id (accounts db ! k) \<and>
        user_id (accounts db' ! k) = user_id (accounts db ! k) \<and>
        account_type (accounts db' ! k) = account_type (accounts db ! k) \<and>
        account_number (accounts db' ! k) = account_number (accounts db ! k) \<and>
        created_at (accounts db' ! k) = created_at (accounts db ! k) \<and>
        (account_id (accounts db ! k) \<noteq> account_id src \<and>
         \<not> (req_type data = Some ''transfer'' \<and>
            map_option account_id ?tgt = Some (account_id (accounts db ! k)))
         \<longrightarrow> accounts db' ! k = accounts db ! k)"
    if k: "k < length (accounts db)" for k
  proof -
    from list_all2_nthD [OF r k]
    have fl: "flush_account e s1 (accounts db ! k) = Some (accounts db' ! k)" .
    have "accounts db' ! k = accounts db ! k"
      if "account_id (accounts db ! k) \<noteq> account_id src"
        "\<not> (req_type data = Some ''transfer'' \<and>
            map_option account_id ?tgt = Some (account_id (accounts db ! k)))"
    proof -
      from that dom have "dirty s1 (account_id (accounts db ! k)) = None"
        by (cases ?tgt) (auto simp: domIff subset_iff split: if_splits)
      with fl show ?thesis by (simp add: flush_account_clean)
    qed
    with flush_account_fields [OF fl] show ?thesis by simp
  qed
  from v len t rows show ?thesis
    by (intro exI [of _ src]) simp
qed

text \<open>
  A deposit of 25 that names a target: the target's row is untouched.
\<close>

theorem committed_transaction_frame_witness:
  "create_transaction calm 1 (order ''deposit'' ''A1'' (Some ''B2'') (Parsed (Finite 25)))
       two_accounts
     = (Message ''Transaction completed successfully'' 201,
        \<lparr>accounts = [alice_current\<lparr>balance := 125, updated_at := 7\<rparr>, bob_savings],
         transactions = [\<lparr>txn_id = 1, from_account_id = Some 1, to_account_id = Some 2,
            amount = 25, txn_type = Some ''deposit'', description = Some [],
            txn_created_at = 7\<rparr>]\<rparr>) \<and>
   validate_account_owner_by_number 1 (Some ''A1'') (SessionLocal two_accounts)
     = Some alice_current \<and>
   account_id (accounts two_accounts ! 1) \<noteq> account_id alice_current"
proof -
  have h: "create_transaction calm 1
       (order ''deposit'' ''A1'' (Some ''B2'') (Parsed (Finite 25))) two_accounts
     = (Message ''Transaction completed successfully'' 201,
        \<lparr>accounts = [alice_current\<lparr>balance := 125, updated_at := 7\<rparr>, bob_savings],
         transactions = [\<lparr>txn_id = 1, from_account_id = Some 1, to_account_id = Some 2,
            amount = 25, txn_type = Some ''deposit'', description = Some [],
            txn_created_at = 7\<rparr>]\<rparr>)"
    by code_simp
  have g: "validate_account_owner_by_number 1 (Some ''A1'') (SessionLocal two_accounts)
     = Some alice_current \<and>
   account_id (accounts two_accounts ! 1) \<noteq> account_id alice_current"
    by code_simp
  from committed_transaction_frame [OF h] h g show ?thesis by simp
qed

end
